theory Spec2Isabelle
  imports Main
begin

section \<open>Data model of \<open>driver/xilinx_dma_bridge_main.c\<close>\<close>

text \<open>
  Pointers are addresses; \<open>NULL\<close> is address 0.  A \<open>struct platform_device *\<close> is the
  identity of a device instance.  The C type \<open>int\<close> is modelled by \<open>int\<close>: the two entry
  points do no arithmetic on it, they only compare a return code with 0 and return constants.
\<close>

type_synonym ptr = nat
type_synonym platform_device = nat

definition NULL :: ptr where
  "NULL = 0"

text \<open>
  The error numbers come from the kernel's errno headers, which are not part of this
  repository; the values are those of \<open>asm-generic/errno-base.h\<close> and \<open>asm-generic/errno.h\<close>.
\<close>

definition ENOMEM :: int where
  "ENOMEM = 12"

definition ENOSYS :: int where
  "ENOSYS = 38"

text \<open>
  \<open>struct axidma_device\<close> is declared in \<open>axidma.h\<close>, which is not among the sources.  The
  record has the four fields this file assigns; everything else in the structure (the state
  the DMA and character-device subsystems keep there) is the opaque field \<open>subsys\<close>.
\<close>

record axidma_device =
  pdev :: platform_device
  chrdev_name :: string
  minor_num :: int
  num_devices :: int
  subsys :: nat

text \<open>
  The configuration read by the probe: the module parameters \<open>CHARACTER_DEVICE_NAME\<close> and
  \<open>MINOR_NUMBER\<close> (file-scope variables a user may set at load time) and the macro
  \<open>NUM_DEVICES\<close> of \<open>axidma.h\<close>.
\<close>

record config =
  CHARACTER_DEVICE_NAME :: string
  MINOR_NUMBER :: int
  NUM_DEVICES :: int

text \<open>Everything the two entry points do to the outside world, in program order.\<close>

datatype event =
    Kmalloc ptr
  | Axidma_err string
  | Set_pdev ptr platform_device
  | Axidma_dma_init platform_device ptr int
  | Set_chrdev_name ptr string
  | Set_minor_num ptr int
  | Set_num_devices ptr int
  | Axidma_chrdev_init ptr int
  | Dev_set_drvdata platform_device ptr
  | Dev_get_drvdata platform_device ptr
  | Axidma_dma_exit ptr
  | Axidma_chrdev_exit ptr
  | Kfree ptr

text \<open>
  The state: the live \<open>axidma_device\<close> structures by address, the driver-data slot of every
  platform device (\<open>NULL\<close> when nothing is stored), and the trace of events so far.
\<close>

record state =
  heap :: "ptr \<Rightarrow> axidma_device option"
  drvdata :: "platform_device \<Rightarrow> ptr"
  trace :: "event list"

text \<open>
  Modelled from the spec: the allocator and the subsystem operations \<open>axidma_dma_init\<close>,
  \<open>axidma_chrdev_init\<close>, \<open>axidma_dma_exit\<close> and \<open>axidma_chrdev_exit\<close> are defined outside
  the sources at hand.  Following the interfaces of the spec (an acquire yields subsystem
  state or an error, a release yields nothing, the configuration is only read), each is a
  parameter: it sees the structure its pointer argument refers to (\<open>None\<close> when the pointer
  refers to no live structure) and answers with a return code and the new opaque subsystem
  state.  \<open>kmalloc_ret\<close> is the address the allocator hands out (\<open>NULL\<close> on failure) and
  \<open>kmalloc_mem\<close> the uninitialised contents found there.
\<close>

record env =
  kmalloc_ret :: ptr
  kmalloc_mem :: axidma_device
  dma_init_res :: "platform_device \<Rightarrow> axidma_device option \<Rightarrow> int \<times> nat"
  chrdev_init_res :: "axidma_device option \<Rightarrow> int \<times> nat"
  dma_exit_res :: "axidma_device option \<Rightarrow> nat"
  chrdev_exit_res :: "axidma_device option \<Rightarrow> nat"

section \<open>Primitive operations\<close>

definition emit :: "event \<Rightarrow> state \<Rightarrow> state" where
  "emit e s = s\<lparr>trace := trace s @ [e]\<rparr>"

definition modify :: "ptr \<Rightarrow> (axidma_device \<Rightarrow> axidma_device) \<Rightarrow> state \<Rightarrow> state" where
  "modify p f s = s\<lparr>heap := (heap s)(p := map_option f (heap s p))\<rparr>"

definition kmalloc :: "env \<Rightarrow> state \<Rightarrow> ptr \<times> state" where
  "kmalloc E s =
     (if kmalloc_ret E = NULL then (NULL, emit (Kmalloc NULL) s)
      else (kmalloc_ret E,
            emit (Kmalloc (kmalloc_ret E))
              (s\<lparr>heap := (heap s)(kmalloc_ret E \<mapsto> kmalloc_mem E)\<rparr>)))"

definition kfree :: "ptr \<Rightarrow> state \<Rightarrow> state" where
  "kfree p s = emit (Kfree p) (s\<lparr>heap := (heap s)(p := None)\<rparr>)"

definition axidma_err :: "string \<Rightarrow> state \<Rightarrow> state" where
  "axidma_err msg s = emit (Axidma_err msg) s"

definition set_pdev :: "ptr \<Rightarrow> platform_device \<Rightarrow> state \<Rightarrow> state" where
  "set_pdev p v s = emit (Set_pdev p v) (modify p (\<lambda>d. d\<lparr>pdev := v\<rparr>) s)"

definition set_chrdev_name :: "ptr \<Rightarrow> string \<Rightarrow> state \<Rightarrow> state" where
  "set_chrdev_name p v s = emit (Set_chrdev_name p v) (modify p (\<lambda>d. d\<lparr>chrdev_name := v\<rparr>) s)"

definition set_minor_num :: "ptr \<Rightarrow> int \<Rightarrow> state \<Rightarrow> state" where
  "set_minor_num p v s = emit (Set_minor_num p v) (modify p (\<lambda>d. d\<lparr>minor_num := v\<rparr>) s)"

definition set_num_devices :: "ptr \<Rightarrow> int \<Rightarrow> state \<Rightarrow> state" where
  "set_num_devices p v s = emit (Set_num_devices p v) (modify p (\<lambda>d. d\<lparr>num_devices := v\<rparr>) s)"

definition axidma_dma_init :: "env \<Rightarrow> platform_device \<Rightarrow> ptr \<Rightarrow> state \<Rightarrow> int \<times> state" where
  "axidma_dma_init E pd p s =
     (let (rc, st) = dma_init_res E pd (heap s p)
      in (rc, emit (Axidma_dma_init pd p rc) (modify p (\<lambda>d. d\<lparr>subsys := st\<rparr>) s)))"

definition axidma_chrdev_init :: "env \<Rightarrow> ptr \<Rightarrow> state \<Rightarrow> int \<times> state" where
  "axidma_chrdev_init E p s =
     (let (rc, st) = chrdev_init_res E (heap s p)
      in (rc, emit (Axidma_chrdev_init p rc) (modify p (\<lambda>d. d\<lparr>subsys := st\<rparr>) s)))"

definition axidma_dma_exit :: "env \<Rightarrow> ptr \<Rightarrow> state \<Rightarrow> state" where
  "axidma_dma_exit E p s =
     emit (Axidma_dma_exit p) (modify p (\<lambda>d. d\<lparr>subsys := dma_exit_res E (heap s p)\<rparr>) s)"

definition axidma_chrdev_exit :: "env \<Rightarrow> ptr \<Rightarrow> state \<Rightarrow> state" where
  "axidma_chrdev_exit E p s =
     emit (Axidma_chrdev_exit p) (modify p (\<lambda>d. d\<lparr>subsys := chrdev_exit_res E (heap s p)\<rparr>) s)"

definition dev_set_drvdata :: "platform_device \<Rightarrow> ptr \<Rightarrow> state \<Rightarrow> state" where
  "dev_set_drvdata pd p s = emit (Dev_set_drvdata pd p) (s\<lparr>drvdata := (drvdata s)(pd := p)\<rparr>)"

definition dev_get_drvdata :: "platform_device \<Rightarrow> state \<Rightarrow> ptr \<times> state" where
  "dev_get_drvdata pd s = (drvdata s pd, emit (Dev_get_drvdata pd (drvdata s pd)) s)"

section \<open>The platform-device entry points\<close>

text \<open>The message of the probe's only diagnostic, with its trailing newline.\<close>

definition alloc_err_msg :: string where
  "alloc_err_msg = ''Unable to allocate the AXI DMA device structure.'' @ [CHR 0x0A]"

text \<open>The two cleanup labels of the probe; \<open>destroy_dma_dev\<close> falls through to \<open>free_axidma_dev\<close>.\<close>

definition free_axidma_dev :: "ptr \<Rightarrow> state \<Rightarrow> int \<times> state" where
  "free_axidma_dev axidma_dev s = (- ENOSYS, kfree axidma_dev s)"

definition destroy_dma_dev :: "env \<Rightarrow> ptr \<Rightarrow> state \<Rightarrow> int \<times> state" where
  "destroy_dma_dev E axidma_dev s = free_axidma_dev axidma_dev (axidma_dma_exit E axidma_dev s)"

definition xilinx_dma_bridge_probe ::
  "env \<Rightarrow> config \<Rightarrow> platform_device \<Rightarrow> state \<Rightarrow> int \<times> state" where
  "xilinx_dma_bridge_probe E cfg pd s =
     (let (axidma_dev, s1) = kmalloc E s in
      if axidma_dev = NULL then
        (- ENOMEM, axidma_err alloc_err_msg s1)
      else
        let s2 = set_pdev axidma_dev pd s1;
            (rc, s3) = axidma_dma_init E pd axidma_dev s2 in
        if rc < 0 then free_axidma_dev axidma_dev s3
        else
          let s4 = set_chrdev_name axidma_dev (CHARACTER_DEVICE_NAME cfg) s3;
              s5 = set_minor_num axidma_dev (MINOR_NUMBER cfg) s4;
              s6 = set_num_devices axidma_dev (NUM_DEVICES cfg) s5;
              (rc, s7) = axidma_chrdev_init E axidma_dev s6 in
          if rc < 0 then destroy_dma_dev E axidma_dev s7
          else (0, dev_set_drvdata pd axidma_dev s7))"

definition xilinx_dma_bridge_remove :: "env \<Rightarrow> platform_device \<Rightarrow> state \<Rightarrow> int \<times> state" where
  "xilinx_dma_bridge_remove E pd s =
     (let (axidma_dev, s1) = dev_get_drvdata pd s;
          s2 = axidma_chrdev_exit E axidma_dev s1;
          s3 = axidma_dma_exit E axidma_dev s2;
          s4 = kfree axidma_dev s3
      in (0, s4))"

section \<open>Observing a run\<close>

text \<open>
  The values a probe meets on its way: the structure after \<open>axidma_dev->pdev = pdev\<close>, the
  return code of \<open>axidma_dma_init\<close> on it, the structure handed to \<open>axidma_chrdev_init\<close>,
  the return code of that call, and the structure that is finally published.
\<close>

definition dev_allocated :: "env \<Rightarrow> platform_device \<Rightarrow> axidma_device" where
  "dev_allocated E pd = (kmalloc_mem E)\<lparr>pdev := pd\<rparr>"

definition rc_A :: "env \<Rightarrow> platform_device \<Rightarrow> int" where
  "rc_A E pd = fst (dma_init_res E pd (Some (dev_allocated E pd)))"

definition dev_configured :: "env \<Rightarrow> config \<Rightarrow> platform_device \<Rightarrow> axidma_device" where
  "dev_configured E cfg pd =
     (dev_allocated E pd)
       \<lparr>subsys := snd (dma_init_res E pd (Some (dev_allocated E pd))),
        chrdev_name := CHARACTER_DEVICE_NAME cfg,
        minor_num := MINOR_NUMBER cfg,
        num_devices := NUM_DEVICES cfg\<rparr>"

definition rc_B :: "env \<Rightarrow> config \<Rightarrow> platform_device \<Rightarrow> int" where
  "rc_B E cfg pd = fst (chrdev_init_res E (Some (dev_configured E cfg pd)))"

definition dev_published :: "env \<Rightarrow> config \<Rightarrow> platform_device \<Rightarrow> axidma_device" where
  "dev_published E cfg pd =
     (dev_configured E cfg pd)
       \<lparr>subsys := snd (chrdev_init_res E (Some (dev_configured E cfg pd)))\<rparr>"

text \<open>
  The acquisition steps an event completes and the release steps it performs.  A step is
  acquired by a \<open>kmalloc\<close> that returns a non-null pointer and by a subsystem
  initialisation whose return code is not negative, the test the probe itself applies.
  \<open>issued s s'\<close> are the events added to the trace between the states \<open>s\<close> and \<open>s'\<close>.
\<close>

datatype step = Handle ptr | Subsystem_A ptr | Subsystem_B ptr

fun acquired_by :: "event \<Rightarrow> step list" where
  "acquired_by (Kmalloc p) = (if p = NULL then [] else [Handle p])"
| "acquired_by (Axidma_dma_init pd p rc) = (if rc < 0 then [] else [Subsystem_A p])"
| "acquired_by (Axidma_chrdev_init p rc) = (if rc < 0 then [] else [Subsystem_B p])"
| "acquired_by _ = []"

fun released_by :: "event \<Rightarrow> step list" where
  "released_by (Kfree p) = [Handle p]"
| "released_by (Axidma_dma_exit p) = [Subsystem_A p]"
| "released_by (Axidma_chrdev_exit p) = [Subsystem_B p]"
| "released_by _ = []"

definition acquired :: "event list \<Rightarrow> step list" where
  "acquired tr = concat (map acquired_by tr)"

definition released :: "event list \<Rightarrow> step list" where
  "released tr = concat (map released_by tr)"

definition issued :: "state \<Rightarrow> state \<Rightarrow> event list" where
  "issued s s' = drop (length (trace s)) (trace s')"

text \<open>Writes of the driver-data slot, and writes of the three configuration fields.\<close>

fun is_publish :: "event \<Rightarrow> bool" where
  "is_publish (Dev_set_drvdata pd p) = True"
| "is_publish _ = False"

fun is_config_write :: "event \<Rightarrow> bool" where
  "is_config_write (Set_chrdev_name p v) = True"
| "is_config_write (Set_minor_num p v) = True"
| "is_config_write (Set_num_devices p v) = True"
| "is_config_write _ = False"

definition config_of :: "axidma_device \<Rightarrow> config" where
  "config_of d =
     \<lparr>CHARACTER_DEVICE_NAME = chrdev_name d, MINOR_NUMBER = minor_num d,
      NUM_DEVICES = num_devices d\<rparr>"

text \<open>A device instance is attached when its driver-data slot refers to a live structure.\<close>

definition attached :: "state \<Rightarrow> platform_device \<Rightarrow> bool" where
  "attached s pd = (drvdata s pd \<noteq> NULL \<and> heap s (drvdata s pd) \<noteq> None)"

subsection \<open>Concrete runs\<close>

text \<open>
  An empty initial state, the default module parameters, and four environments: one in which
  every step succeeds, one without memory, one in which the DMA subsystem reports \<open>-EIO\<close>
  and one in which the character-device subsystem reports \<open>-EBUSY\<close>.
\<close>

definition s0 :: state where
  "s0 = \<lparr>heap = (\<lambda>p. None), drvdata = (\<lambda>pd. NULL), trace = []\<rparr>"

definition cfg0 :: config where
  "cfg0 = \<lparr>CHARACTER_DEVICE_NAME = ''xilinx_dma_bridge'', MINOR_NUMBER = 0, NUM_DEVICES = 1\<rparr>"

definition E_ok :: env where
  "E_ok = \<lparr>kmalloc_ret = 16,
      kmalloc_mem = \<lparr>pdev = 0, chrdev_name = ''junk'', minor_num = - 1, num_devices = 99,
                      subsys = 0\<rparr>,
      dma_init_res = (\<lambda>pd d. (0, 1)),
      chrdev_init_res = (\<lambda>d. (0, 2)),
      dma_exit_res = (\<lambda>d. 0),
      chrdev_exit_res = (\<lambda>d. 0)\<rparr>"

definition E_nomem :: env where
  "E_nomem = E_ok\<lparr>kmalloc_ret := NULL\<rparr>"

definition E_A_fails :: env where
  "E_A_fails = E_ok\<lparr>dma_init_res := (\<lambda>pd d. (- 5, 0))\<rparr>"

definition E_B_fails :: env where
  "E_B_fails = E_ok\<lparr>chrdev_init_res := (\<lambda>d. (- 16, 1))\<rparr>"

text \<open>A second allocation at another address, and a second configuration.\<close>

definition E_ok2 :: env where
  "E_ok2 = E_ok\<lparr>kmalloc_ret := 32\<rparr>"

definition cfg1 :: config where
  "cfg1 = \<lparr>CHARACTER_DEVICE_NAME = ''dev0'', MINOR_NUMBER = 3, NUM_DEVICES = 2\<rparr>"

section \<open>The paths through the two entry points\<close>

text \<open>
  A probe takes one of four paths, decided by the allocator and by the two return codes; a
  remove has a single path.  Each lemma gives the return value and the final state of a path.
\<close>

lemmas prim_defs = emit_def modify_def kmalloc_def kfree_def axidma_err_def set_pdev_def
  set_chrdev_name_def set_minor_num_def set_num_devices_def axidma_dma_init_def
  axidma_chrdev_init_def axidma_dma_exit_def axidma_chrdev_exit_def dev_set_drvdata_def
  dev_get_drvdata_def free_axidma_dev_def destroy_dma_dev_def

lemmas run_defs = dev_allocated_def rc_A_def dev_configured_def rc_B_def dev_published_def

lemmas obs_defs = acquired_def released_def issued_def

lemmas fixture_defs = s0_def cfg0_def E_ok_def E_nomem_def E_A_fails_def E_B_fails_def

lemma probe_alloc_fail:
  assumes "kmalloc_ret E = NULL"
  shows "xilinx_dma_bridge_probe E cfg pd s =
    (- ENOMEM, s\<lparr>trace := trace s @
        [Kmalloc NULL, Axidma_err alloc_err_msg]\<rparr>)"
  using assms by (simp add: xilinx_dma_bridge_probe_def prim_defs)

lemma probe_A_fail:
  assumes "kmalloc_ret E \<noteq> NULL" and "rc_A E pd < 0"
  shows "xilinx_dma_bridge_probe E cfg pd s =
    (- ENOSYS, s\<lparr>heap := (heap s)(kmalloc_ret E := None),
        trace := trace s @
          [Kmalloc (kmalloc_ret E), Set_pdev (kmalloc_ret E) pd,
           Axidma_dma_init pd (kmalloc_ret E) (rc_A E pd), Kfree (kmalloc_ret E)]\<rparr>)"
  using assms
  by (simp add: xilinx_dma_bridge_probe_def prim_defs run_defs Let_def split_def)

lemma probe_B_fail:
  assumes "kmalloc_ret E \<noteq> NULL" and "\<not> rc_A E pd < 0" and "rc_B E cfg pd < 0"
  shows "xilinx_dma_bridge_probe E cfg pd s =
    (- ENOSYS, s\<lparr>heap := (heap s)(kmalloc_ret E := None),
        trace := trace s @
          [Kmalloc (kmalloc_ret E), Set_pdev (kmalloc_ret E) pd,
           Axidma_dma_init pd (kmalloc_ret E) (rc_A E pd),
           Set_chrdev_name (kmalloc_ret E) (CHARACTER_DEVICE_NAME cfg),
           Set_minor_num (kmalloc_ret E) (MINOR_NUMBER cfg),
           Set_num_devices (kmalloc_ret E) (NUM_DEVICES cfg),
           Axidma_chrdev_init (kmalloc_ret E) (rc_B E cfg pd),
           Axidma_dma_exit (kmalloc_ret E), Kfree (kmalloc_ret E)]\<rparr>)"
  using assms
  by (simp add: xilinx_dma_bridge_probe_def prim_defs run_defs Let_def split_def)

lemma probe_ok:
  assumes "kmalloc_ret E \<noteq> NULL" and "\<not> rc_A E pd < 0" and "\<not> rc_B E cfg pd < 0"
  shows "xilinx_dma_bridge_probe E cfg pd s =
    (0, s\<lparr>heap := (heap s)(kmalloc_ret E \<mapsto> dev_published E cfg pd),
        drvdata := (drvdata s)(pd := kmalloc_ret E),
        trace := trace s @
          [Kmalloc (kmalloc_ret E), Set_pdev (kmalloc_ret E) pd,
           Axidma_dma_init pd (kmalloc_ret E) (rc_A E pd),
           Set_chrdev_name (kmalloc_ret E) (CHARACTER_DEVICE_NAME cfg),
           Set_minor_num (kmalloc_ret E) (MINOR_NUMBER cfg),
           Set_num_devices (kmalloc_ret E) (NUM_DEVICES cfg),
           Axidma_chrdev_init (kmalloc_ret E) (rc_B E cfg pd),
           Dev_set_drvdata pd (kmalloc_ret E)]\<rparr>)"
  using assms
  by (simp add: xilinx_dma_bridge_probe_def prim_defs run_defs Let_def split_def)

lemma remove_run:
  "xilinx_dma_bridge_remove E pd s =
    (0, s\<lparr>heap := (heap s)(drvdata s pd := None),
        trace := trace s @
          [Dev_get_drvdata pd (drvdata s pd), Axidma_chrdev_exit (drvdata s pd),
           Axidma_dma_exit (drvdata s pd), Kfree (drvdata s pd)]\<rparr>)"
  by (simp add: xilinx_dma_bridge_remove_def prim_defs Let_def)

lemma probe_cases:
  obtains (alloc) "kmalloc_ret E = NULL"
  | (A) "kmalloc_ret E \<noteq> NULL" "rc_A E pd < 0"
  | (B) "kmalloc_ret E \<noteq> NULL" "\<not> rc_A E pd < 0" "rc_B E cfg pd < 0"
  | (ok) "kmalloc_ret E \<noteq> NULL" "\<not> rc_A E pd < 0" "\<not> rc_B E cfg pd < 0"
  by blast

lemma probe_ret:
  "fst (xilinx_dma_bridge_probe E cfg pd s) =
     (if kmalloc_ret E = NULL then - ENOMEM
      else if rc_A E pd < 0 \<or> rc_B E cfg pd < 0 then - ENOSYS else 0)"
  by (rule probe_cases [where E = E and pd = pd and cfg = cfg])
     (simp_all add: probe_alloc_fail probe_A_fail probe_B_fail probe_ok)

lemma errno_neq:
  "ENOMEM \<noteq> 0" "ENOSYS \<noteq> 0" "ENOMEM \<noteq> ENOSYS" "ENOSYS \<noteq> ENOMEM"
  by (simp_all add: ENOMEM_def ENOSYS_def)

lemma probe_success_iff:
  "fst (xilinx_dma_bridge_probe E cfg pd s) = 0 \<longleftrightarrow>
     kmalloc_ret E \<noteq> NULL \<and> \<not> rc_A E pd < 0 \<and> \<not> rc_B E cfg pd < 0"
  by (auto simp add: probe_ret errno_neq)

lemma probe_success_run:
  assumes "xilinx_dma_bridge_probe E cfg pd s = (0, s')"
  shows "kmalloc_ret E \<noteq> NULL" and "\<not> rc_A E pd < 0" and "\<not> rc_B E cfg pd < 0"
    and "s' = s\<lparr>heap := (heap s)(kmalloc_ret E \<mapsto> dev_published E cfg pd),
        drvdata := (drvdata s)(pd := kmalloc_ret E),
        trace := trace s @
          [Kmalloc (kmalloc_ret E), Set_pdev (kmalloc_ret E) pd,
           Axidma_dma_init pd (kmalloc_ret E) (rc_A E pd),
           Set_chrdev_name (kmalloc_ret E) (CHARACTER_DEVICE_NAME cfg),
           Set_minor_num (kmalloc_ret E) (MINOR_NUMBER cfg),
           Set_num_devices (kmalloc_ret E) (NUM_DEVICES cfg),
           Axidma_chrdev_init (kmalloc_ret E) (rc_B E cfg pd),
           Dev_set_drvdata pd (kmalloc_ret E)]\<rparr>"
proof -
  have "fst (xilinx_dma_bridge_probe E cfg pd s) = 0" using assms by simp
  then have c: "kmalloc_ret E \<noteq> NULL \<and> \<not> rc_A E pd < 0 \<and> \<not> rc_B E cfg pd < 0"
    by (simp add: probe_success_iff)
  from c show "kmalloc_ret E \<noteq> NULL" by blast
  from c show "\<not> rc_A E pd < 0" by blast
  from c show "\<not> rc_B E cfg pd < 0" by blast
  from c assms show "s' = s\<lparr>heap := (heap s)(kmalloc_ret E \<mapsto> dev_published E cfg pd),
        drvdata := (drvdata s)(pd := kmalloc_ret E),
        trace := trace s @
          [Kmalloc (kmalloc_ret E), Set_pdev (kmalloc_ret E) pd,
           Axidma_dma_init pd (kmalloc_ret E) (rc_A E pd),
           Set_chrdev_name (kmalloc_ret E) (CHARACTER_DEVICE_NAME cfg),
           Set_minor_num (kmalloc_ret E) (MINOR_NUMBER cfg),
           Set_num_devices (kmalloc_ret E) (NUM_DEVICES cfg),
           Axidma_chrdev_init (kmalloc_ret E) (rc_B E cfg pd),
           Dev_set_drvdata pd (kmalloc_ret E)]\<rparr>"
    by (simp add: probe_ok)
qed

lemma remove_keeps_config:
  "heap (snd (xilinx_dma_bridge_remove E pd t)) q = None \<or>
   heap (snd (xilinx_dma_bridge_remove E pd t)) q = heap t q"
  by (simp add: remove_run)

lemma probe_keeps_other:
  assumes "q \<noteq> kmalloc_ret E"
  shows "heap (snd (xilinx_dma_bridge_probe E cfg pd t)) q = heap t q"
  using assms
  by (cases rule: probe_cases [where E = E and pd = pd and cfg = cfg])
     (simp_all add: probe_alloc_fail probe_A_fail probe_B_fail probe_ok)

lemma config_of_published: "config_of (dev_published E cfg pd) = cfg"
  by (simp add: config_of_def run_defs)

subsection \<open>Facts about the concrete runs\<close>

lemma fixture_A: "kmalloc_ret E_A_fails \<noteq> NULL \<and> rc_A E_A_fails 7 < 0"
  by (simp add: fixture_defs run_defs NULL_def)

lemma fixture_B:
  "kmalloc_ret E_B_fails \<noteq> NULL \<and> \<not> rc_A E_B_fails 7 < 0 \<and> rc_B E_B_fails cfg0 7 < 0"
  by (simp add: fixture_defs run_defs NULL_def)

lemma fixture_ok:
  "kmalloc_ret E_ok \<noteq> NULL \<and> \<not> rc_A E_ok 7 < 0 \<and> \<not> rc_B E_ok cfg0 7 < 0"
  by (simp add: fixture_defs run_defs NULL_def)

lemma fixture_ptr:
  "kmalloc_ret E_ok = 16" "kmalloc_ret E_A_fails = 16" "kmalloc_ret E_B_fails = 16"
  by (simp_all add: fixture_defs)

lemma fixture_nomem: "kmalloc_ret E_nomem = NULL"
  by (simp add: fixture_defs)

lemma fixture_probe_ok: "fst (xilinx_dma_bridge_probe E_ok cfg0 7 s0) = 0"
  using fixture_ok by (simp add: probe_success_iff)

lemma fixture_probe_ok_pair:
  "xilinx_dma_bridge_probe E_ok cfg0 7 s0 = (0, snd (xilinx_dma_bridge_probe E_ok cfg0 7 s0))"
  using fixture_probe_ok by (metis surjective_pairing)

lemma fixture_probe_B_pair:
  "xilinx_dma_bridge_probe E_B_fails cfg0 7 s0 =
     (- ENOSYS, snd (xilinx_dma_bridge_probe E_B_fails cfg0 7 s0))"
  using fixture_B probe_ret [of E_B_fails cfg0 7 s0] by (metis surjective_pairing)

section \<open>Acquisition\<close>

text \<open>
  Claim C1.  Whenever \<open>xilinx_dma_bridge_probe\<close> returns an error, the releases it issued
  are exactly the acquisitions that had succeeded, in reverse order: nothing when the
  allocation failed, only the \<open>kfree\<close> of the handle when \<open>axidma_dma_init\<close> failed, and
  \<open>axidma_dma_exit\<close> followed by the \<open>kfree\<close> when \<open>axidma_chrdev_init\<close> failed.
\<close>

theorem probe_rollback_exact:
  assumes "xilinx_dma_bridge_probe E cfg pd s = (rc, s')" and "rc \<noteq> 0"
  shows "released (issued s s') = rev (acquired (issued s s')) \<and>
         released (issued s s') =
           (if kmalloc_ret E = NULL then []
            else if rc_A E pd < 0 then [Handle (kmalloc_ret E)]
            else [Subsystem_A (kmalloc_ret E), Handle (kmalloc_ret E)])"
proof (cases rule: probe_cases [where E = E and pd = pd and cfg = cfg])
  case alloc
  with assms show ?thesis by (auto simp add: probe_alloc_fail obs_defs)
next
  case A
  with assms show ?thesis by (auto simp add: probe_A_fail obs_defs)
next
  case B
  with assms show ?thesis by (auto simp add: probe_B_fail obs_defs)
next
  case ok
  with assms show ?thesis by (simp add: probe_ok)
qed

theorem probe_rollback_exact_witness:
  "fst (xilinx_dma_bridge_probe E_nomem cfg0 7 s0) \<noteq> 0 \<and>
   released (issued s0 (snd (xilinx_dma_bridge_probe E_nomem cfg0 7 s0))) = [] \<and>
   fst (xilinx_dma_bridge_probe E_A_fails cfg0 7 s0) \<noteq> 0 \<and>
   released (issued s0 (snd (xilinx_dma_bridge_probe E_A_fails cfg0 7 s0))) = [Handle 16] \<and>
   fst (xilinx_dma_bridge_probe E_B_fails cfg0 7 s0) \<noteq> 0 \<and>
   released (issued s0 (snd (xilinx_dma_bridge_probe E_B_fails cfg0 7 s0))) =
     [Subsystem_A 16, Handle 16]"
proof -
  have n: "fst (xilinx_dma_bridge_probe E_nomem cfg0 7 s0) \<noteq> 0"
    by (simp add: probe_ret fixture_nomem errno_neq)
  have a: "fst (xilinx_dma_bridge_probe E_A_fails cfg0 7 s0) \<noteq> 0"
    using fixture_A by (simp add: probe_ret errno_neq)
  have b: "fst (xilinx_dma_bridge_probe E_B_fails cfg0 7 s0) \<noteq> 0"
    using fixture_B by (simp add: probe_ret errno_neq)
  have rn: "released (issued s0 (snd (xilinx_dma_bridge_probe E_nomem cfg0 7 s0))) = []"
    using probe_rollback_exact [OF surjective_pairing n, THEN conjunct2] fixture_nomem by simp
  have ra: "released (issued s0 (snd (xilinx_dma_bridge_probe E_A_fails cfg0 7 s0))) =
      [Handle 16]"
    using probe_rollback_exact [OF surjective_pairing a, THEN conjunct2] fixture_A fixture_ptr by simp
  have rb: "released (issued s0 (snd (xilinx_dma_bridge_probe E_B_fails cfg0 7 s0))) =
      [Subsystem_A 16, Handle 16]"
    using probe_rollback_exact [OF surjective_pairing b, THEN conjunct2] fixture_B fixture_ptr by simp
  show ?thesis
    using n a b rn ra rb by blast
qed

text \<open>
  Claim C6.  When the allocation of the handle fails, the probe returns \<open>-ENOMEM\<close> and
  does nothing but report the failure: neither subsystem is initialised, nothing is released
  or freed, and the heap and the driver-data slots are as before.
\<close>

theorem probe_alloc_failure_no_action:
  assumes "kmalloc_ret E = NULL" and "xilinx_dma_bridge_probe E cfg pd s = (rc, s')"
  shows "rc = - ENOMEM \<and>
         issued s s' =
           [Kmalloc NULL, Axidma_err alloc_err_msg] \<and>
         acquired (issued s s') = [] \<and> released (issued s s') = [] \<and>
         heap s' = heap s \<and> drvdata s' = drvdata s"
  using assms by (auto simp add: probe_alloc_fail obs_defs)

theorem probe_alloc_failure_no_action_witness:
  "kmalloc_ret E_nomem = NULL \<and>
   fst (xilinx_dma_bridge_probe E_nomem cfg0 7 s0) = - ENOMEM \<and>
   issued s0 (snd (xilinx_dma_bridge_probe E_nomem cfg0 7 s0)) =
     [Kmalloc NULL, Axidma_err alloc_err_msg]"
  using fixture_nomem probe_alloc_failure_no_action [OF fixture_nomem surjective_pairing]
  by blast

text \<open>
  Claim C3.  The probe writes the driver-data slot if and only if every acquisition step
  succeeded.  On success \<open>dev_set_drvdata\<close> is called exactly once, as the last action, right
  after the successful \<open>axidma_chrdev_init\<close>; on every failure path it is not called and all
  slots are left as they were.
\<close>

theorem probe_publishes_iff_success:
  assumes "xilinx_dma_bridge_probe E cfg pd s = (rc, s')"
  shows "(rc = 0 \<longleftrightarrow>
            kmalloc_ret E \<noteq> NULL \<and> \<not> rc_A E pd < 0 \<and> \<not> rc_B E cfg pd < 0) \<and>
         filter is_publish (issued s s') =
           (if rc = 0 then [Dev_set_drvdata pd (kmalloc_ret E)] else []) \<and>
         (rc = 0 \<longrightarrow>
            take 2 (rev (issued s s')) =
              [Dev_set_drvdata pd (kmalloc_ret E),
               Axidma_chrdev_init (kmalloc_ret E) (rc_B E cfg pd)]) \<and>
         drvdata s' = (if rc = 0 then (drvdata s)(pd := kmalloc_ret E) else drvdata s)"
proof (cases rule: probe_cases [where E = E and pd = pd and cfg = cfg])
  case alloc
  with assms show ?thesis by (auto simp add: probe_alloc_fail obs_defs errno_neq)
next
  case A
  with assms show ?thesis by (auto simp add: probe_A_fail obs_defs errno_neq)
next
  case B
  with assms show ?thesis by (auto simp add: probe_B_fail obs_defs errno_neq)
next
  case ok
  with assms show ?thesis by (auto simp add: probe_ok obs_defs)
qed

theorem probe_publishes_iff_success_witness:
  "filter is_publish (issued s0 (snd (xilinx_dma_bridge_probe E_ok cfg0 7 s0))) =
     [Dev_set_drvdata 7 16] \<and>
   drvdata (snd (xilinx_dma_bridge_probe E_ok cfg0 7 s0)) = (drvdata s0)(7 := 16) \<and>
   filter is_publish (issued s0 (snd (xilinx_dma_bridge_probe E_B_fails cfg0 7 s0))) = [] \<and>
   drvdata (snd (xilinx_dma_bridge_probe E_B_fails cfg0 7 s0)) = drvdata s0"
  using probe_publishes_iff_success [OF fixture_probe_ok_pair]
    probe_publishes_iff_success [OF fixture_probe_B_pair] fixture_ptr(1) errno_neq
  by simp

text \<open>
  Claim C8.  After a successful probe the published handle carries exactly the configuration
  the probe was given.  Each of the three fields is written once, between the successful
  \<open>axidma_dma_init\<close> and the call of \<open>axidma_chrdev_init\<close>.  No later operation of this file
  changes them: a remove writes no configuration field and leaves every structure it does
  not free as it was, and a probe leaves every structure other than the one it allocates as
  it was.
\<close>

theorem probe_config_written_once:
  assumes "xilinx_dma_bridge_probe E cfg pd s = (0, s')"
  shows "drvdata s' pd = kmalloc_ret E \<and>
         map_option config_of (heap s' (kmalloc_ret E)) = Some cfg \<and>
         filter is_config_write (issued s s') =
           [Set_chrdev_name (kmalloc_ret E) (CHARACTER_DEVICE_NAME cfg),
            Set_minor_num (kmalloc_ret E) (MINOR_NUMBER cfg),
            Set_num_devices (kmalloc_ret E) (NUM_DEVICES cfg)] \<and>
         take 5 (drop 2 (issued s s')) =
           [Axidma_dma_init pd (kmalloc_ret E) (rc_A E pd),
            Set_chrdev_name (kmalloc_ret E) (CHARACTER_DEVICE_NAME cfg),
            Set_minor_num (kmalloc_ret E) (MINOR_NUMBER cfg),
            Set_num_devices (kmalloc_ret E) (NUM_DEVICES cfg),
            Axidma_chrdev_init (kmalloc_ret E) (rc_B E cfg pd)] \<and>
         \<not> rc_A E pd < 0 \<and>
         filter is_config_write (issued t (snd (xilinx_dma_bridge_remove E' pd' t))) = [] \<and>
         (heap (snd (xilinx_dma_bridge_remove E' pd' t)) q = None \<or>
          heap (snd (xilinx_dma_bridge_remove E' pd' t)) q = heap t q) \<and>
         (q \<noteq> kmalloc_ret E' \<longrightarrow>
            heap (snd (xilinx_dma_bridge_probe E' cfg' pd' t)) q = heap t q)"
proof -
  note run = probe_success_run [OF assms]
  have 1: "drvdata s' pd = kmalloc_ret E" by (simp add: run(4))
  have 2: "map_option config_of (heap s' (kmalloc_ret E)) = Some cfg"
    by (simp add: run(4) config_of_published)
  have 3: "filter is_config_write (issued s s') =
           [Set_chrdev_name (kmalloc_ret E) (CHARACTER_DEVICE_NAME cfg),
            Set_minor_num (kmalloc_ret E) (MINOR_NUMBER cfg),
            Set_num_devices (kmalloc_ret E) (NUM_DEVICES cfg)]"
    by (simp add: run(4) obs_defs)
  have 4: "take 5 (drop 2 (issued s s')) =
           [Axidma_dma_init pd (kmalloc_ret E) (rc_A E pd),
            Set_chrdev_name (kmalloc_ret E) (CHARACTER_DEVICE_NAME cfg),
            Set_minor_num (kmalloc_ret E) (MINOR_NUMBER cfg),
            Set_num_devices (kmalloc_ret E) (NUM_DEVICES cfg),
            Axidma_chrdev_init (kmalloc_ret E) (rc_B E cfg pd)]"
    by (simp add: run(4) obs_defs)
  have 5: "filter is_config_write (issued t (snd (xilinx_dma_bridge_remove E' pd' t))) = []"
    by (simp add: remove_run obs_defs)
  from 1 2 3 4 5 run(2) remove_keeps_config [of E' pd' t q]
    probe_keeps_other [of q E' cfg' pd' t]
  show ?thesis by blast
qed

theorem probe_config_written_once_witness:
  "xilinx_dma_bridge_probe E_ok cfg0 7 s0 = (0, snd (xilinx_dma_bridge_probe E_ok cfg0 7 s0)) \<and>
   map_option config_of (heap (snd (xilinx_dma_bridge_probe E_ok cfg0 7 s0)) 16) = Some cfg0 \<and>
   16 \<noteq> kmalloc_ret E_ok2 \<and>
   heap (snd (xilinx_dma_bridge_probe E_ok2 cfg1 8 (snd (xilinx_dma_bridge_probe E_ok cfg0 7 s0))))
     16 = heap (snd (xilinx_dma_bridge_probe E_ok cfg0 7 s0)) 16"
proof -
  have n: "16 \<noteq> kmalloc_ret E_ok2" by (simp add: E_ok2_def)
  show ?thesis
    using n fixture_probe_ok_pair fixture_ptr(1)
      probe_config_written_once [OF fixture_probe_ok_pair, where E' = E_ok2 and q = 16
        and cfg' = cfg1 and pd' = 8 and t = "snd (xilinx_dma_bridge_probe E_ok cfg0 7 s0)"]
    by simp
qed

section \<open>Return codes of the probe\<close>

text \<open>
  Claim C10.  The return value of the probe is \<open>0\<close> on success, \<open>-ENOMEM\<close> when the
  allocation fails and \<open>-ENOSYS\<close> when either subsystem fails to initialise; the three
  values are distinct, and the two subsystem failures share one code.
\<close>

theorem probe_return_values:
  "fst (xilinx_dma_bridge_probe E cfg pd s) =
     (if kmalloc_ret E = NULL then - ENOMEM
      else if rc_A E pd < 0 then - ENOSYS
      else if rc_B E cfg pd < 0 then - ENOSYS
      else 0) \<and>
   fst (xilinx_dma_bridge_probe E cfg pd s) \<in> {0, - ENOMEM, - ENOSYS} \<and>
   distinct [0, - ENOMEM, - ENOSYS]"
  by (simp add: probe_ret ENOMEM_def ENOSYS_def)

text \<open>
  Claim C4.  As amended: when \<open>axidma_dma_init\<close> or \<open>axidma_chrdev_init\<close> fails, the probe
  returns the fixed negative code \<open>-ENOSYS\<close>, which differs from the \<open>-ENOMEM\<close> of a failed
  allocation; the value the failing subsystem reported is not the return code.
\<close>

theorem probe_subsystem_failure_is_ENOSYS:
  assumes "kmalloc_ret E \<noteq> NULL" and "rc_A E pd < 0 \<or> rc_B E cfg pd < 0"
  shows "fst (xilinx_dma_bridge_probe E cfg pd s) = - ENOSYS \<and> - ENOSYS \<noteq> - ENOMEM \<and>
         - ENOSYS < 0"
  using assms by (simp add: probe_ret ENOSYS_def ENOMEM_def)

theorem probe_subsystem_failure_is_ENOSYS_witness:
  "kmalloc_ret E_A_fails \<noteq> NULL \<and> rc_A E_A_fails 7 < 0 \<and>
   fst (xilinx_dma_bridge_probe E_A_fails cfg0 7 s0) = - ENOSYS \<and>
   kmalloc_ret E_B_fails \<noteq> NULL \<and> rc_B E_B_fails cfg0 7 < 0 \<and>
   fst (xilinx_dma_bridge_probe E_B_fails cfg0 7 s0) = - ENOSYS"
proof -
  have a: "kmalloc_ret E_A_fails \<noteq> NULL" and a': "rc_A E_A_fails 7 < 0"
    using fixture_A by simp_all
  have b: "kmalloc_ret E_B_fails \<noteq> NULL" and b': "rc_B E_B_fails cfg0 7 < 0"
    using fixture_B by simp_all
  show ?thesis
    using a a' b b'
      probe_subsystem_failure_is_ENOSYS [where E = E_A_fails and pd = 7 and cfg = cfg0 and s = s0]
      probe_subsystem_failure_is_ENOSYS [where E = E_B_fails and pd = 7 and cfg = cfg0 and s = s0]
    by blast
qed

text \<open>
  The claim as first stated, that the failing subsystem's own error value is returned, fails:
  the DMA subsystem reports \<open>-5\<close> and the character-device subsystem \<open>-16\<close>, and the probe
  returns \<open>-38\<close> both times.
\<close>

theorem probe_error_not_propagated_counterexample:
  "rc_A E_A_fails 7 = - 5 \<and>
   fst (xilinx_dma_bridge_probe E_A_fails cfg0 7 s0) = - 38 \<and>
   rc_B E_B_fails cfg0 7 = - 16 \<and>
   fst (xilinx_dma_bridge_probe E_B_fails cfg0 7 s0) = - 38"
  by (simp add: xilinx_dma_bridge_probe_def prim_defs run_defs fixture_defs Let_def split_def
      NULL_def ENOSYS_def)

section \<open>Teardown\<close>

text \<open>
  Claim C2.  When a probe has succeeded and remove is then invoked on the same device, with
  the driver-data slot still as the probe left it, the releases run in the reverse order of
  the acquisitions: the probe acquires the handle, the DMA subsystem and the character
  device, and the remove releases the character device, the DMA subsystem and the handle.
\<close>

theorem probe_remove_reverse_order:
  assumes "xilinx_dma_bridge_probe E cfg pd s = (0, s1)"
    and "drvdata t pd = drvdata s1 pd"
    and "xilinx_dma_bridge_remove E' pd t = (r, t')"
  shows "acquired (issued s s1) =
           [Handle (kmalloc_ret E), Subsystem_A (kmalloc_ret E), Subsystem_B (kmalloc_ret E)] \<and>
         released (issued s s1) = [] \<and>
         released (issued t t') =
           [Subsystem_B (kmalloc_ret E), Subsystem_A (kmalloc_ret E), Handle (kmalloc_ret E)] \<and>
         released (issued t t') = rev (acquired (issued s s1))"
proof -
  note run = probe_success_run [OF assms(1)]
  have acq: "acquired (issued s s1) =
      [Handle (kmalloc_ret E), Subsystem_A (kmalloc_ret E), Subsystem_B (kmalloc_ret E)]"
    using run(1-3) by (simp add: run(4) obs_defs)
  have norel: "released (issued s s1) = []"
    by (simp add: run(4) obs_defs)
  have slot: "drvdata t pd = kmalloc_ret E"
    using assms(2) by (simp add: run(4))
  have rel: "released (issued t t') =
      [Subsystem_B (kmalloc_ret E), Subsystem_A (kmalloc_ret E), Handle (kmalloc_ret E)]"
    using assms(3) slot by (auto simp add: remove_run obs_defs)
  from acq norel rel show ?thesis by simp
qed

theorem probe_remove_reverse_order_witness:
  "xilinx_dma_bridge_probe E_ok cfg0 7 s0 = (0, snd (xilinx_dma_bridge_probe E_ok cfg0 7 s0)) \<and>
   acquired (issued s0 (snd (xilinx_dma_bridge_probe E_ok cfg0 7 s0))) =
     [Handle 16, Subsystem_A 16, Subsystem_B 16] \<and>
   released (issued (snd (xilinx_dma_bridge_probe E_ok cfg0 7 s0))
      (snd (xilinx_dma_bridge_remove E_ok 7 (snd (xilinx_dma_bridge_probe E_ok cfg0 7 s0))))) =
     [Subsystem_B 16, Subsystem_A 16, Handle 16]"
  using probe_remove_reverse_order [OF fixture_probe_ok_pair refl surjective_pairing,
      where E' = E_ok] fixture_probe_ok_pair fixture_ptr(1)
  by simp

text \<open>
  Claim C7.  A remove always returns \<open>0\<close> and always runs its three release steps to the end,
  whatever the subsystem release operations do.
\<close>

theorem remove_never_fails:
  "fst (xilinx_dma_bridge_remove E pd s) = 0 \<and>
   issued s (snd (xilinx_dma_bridge_remove E pd s)) =
     [Dev_get_drvdata pd (drvdata s pd), Axidma_chrdev_exit (drvdata s pd),
      Axidma_dma_exit (drvdata s pd), Kfree (drvdata s pd)]"
  by (simp add: remove_run obs_defs)

text \<open>
  Claim C5.  As amended: after a remove on an attached device both subsystems have been
  released, the character device first, and the handle has been freed exactly once; the
  remove does not write the driver-data slot, which keeps the address of the freed handle.
\<close>

theorem remove_releases_and_keeps_drvdata:
  assumes "attached s pd" and "xilinx_dma_bridge_remove E pd s = (r, s')"
  shows "released (issued s s') =
           [Subsystem_B (drvdata s pd), Subsystem_A (drvdata s pd), Handle (drvdata s pd)] \<and>
         count_list (issued s s') (Kfree (drvdata s pd)) = 1 \<and>
         heap s (drvdata s pd) \<noteq> None \<and> heap s' (drvdata s pd) = None \<and>
         filter is_publish (issued s s') = [] \<and>
         drvdata s' = drvdata s"
  using assms by (auto simp add: remove_run obs_defs attached_def)

theorem remove_releases_and_keeps_drvdata_witness:
  "attached (snd (xilinx_dma_bridge_probe E_ok cfg0 7 s0)) 7 \<and>
   released (issued (snd (xilinx_dma_bridge_probe E_ok cfg0 7 s0))
      (snd (xilinx_dma_bridge_remove E_ok 7 (snd (xilinx_dma_bridge_probe E_ok cfg0 7 s0))))) =
     [Subsystem_B 16, Subsystem_A 16, Handle 16] \<and>
   drvdata (snd (xilinx_dma_bridge_remove E_ok 7 (snd (xilinx_dma_bridge_probe E_ok cfg0 7 s0)))) =
     drvdata (snd (xilinx_dma_bridge_probe E_ok cfg0 7 s0))"
proof -
  have s1: "snd (xilinx_dma_bridge_probe E_ok cfg0 7 s0) =
      s0\<lparr>heap := (heap s0)(16 \<mapsto> dev_published E_ok cfg0 7),
        drvdata := (drvdata s0)(7 := 16),
        trace := trace s0 @
          [Kmalloc 16, Set_pdev 16 7, Axidma_dma_init 7 16 (rc_A E_ok 7),
           Set_chrdev_name 16 (CHARACTER_DEVICE_NAME cfg0),
           Set_minor_num 16 (MINOR_NUMBER cfg0),
           Set_num_devices 16 (NUM_DEVICES cfg0),
           Axidma_chrdev_init 16 (rc_B E_ok cfg0 7),
           Dev_set_drvdata 7 16]\<rparr>"
    using probe_success_run(4) [OF fixture_probe_ok_pair] by (simp add: fixture_ptr)
  have at: "attached (snd (xilinx_dma_bridge_probe E_ok cfg0 7 s0)) 7"
    by (simp add: s1 attached_def NULL_def)
  have d: "drvdata (snd (xilinx_dma_bridge_probe E_ok cfg0 7 s0)) 7 = 16"
    by (simp add: s1)
  show ?thesis
    using at d remove_releases_and_keeps_drvdata [OF at surjective_pairing, of E_ok]
    by simp
qed

text \<open>
  The claim as first stated, that the association is cleared, fails: after a successful probe
  and a remove the slot of the device still holds the address \<open>16\<close>, which is no longer live.
\<close>

theorem remove_leaves_drvdata_counterexample:
  "fst (xilinx_dma_bridge_probe E_ok cfg0 7 s0) = 0 \<and>
   drvdata (snd (xilinx_dma_bridge_remove E_ok 7 (snd (xilinx_dma_bridge_probe E_ok cfg0 7 s0)))) 7
     = 16 \<and>
   (16::nat) \<noteq> NULL \<and>
   heap (snd (xilinx_dma_bridge_remove E_ok 7 (snd (xilinx_dma_bridge_probe E_ok cfg0 7 s0)))) 16
     = None"
  by (simp add: xilinx_dma_bridge_probe_def xilinx_dma_bridge_remove_def prim_defs fixture_defs
      Let_def split_def NULL_def)

text \<open>
  Claim C9.  As amended: the remove has no guard for a device without a handle.  When the
  driver-data slot holds \<open>NULL\<close> it still calls \<open>axidma_chrdev_exit\<close>, \<open>axidma_dma_exit\<close> and
  \<open>kfree\<close>, each with the null pointer, and returns \<open>0\<close>; keeping it away from an unattached
  device is left to the caller.
\<close>

theorem remove_unattached_unguarded:
  assumes "drvdata s pd = NULL"
  shows "fst (xilinx_dma_bridge_remove E pd s) = 0 \<and>
         issued s (snd (xilinx_dma_bridge_remove E pd s)) =
           [Dev_get_drvdata pd NULL, Axidma_chrdev_exit NULL, Axidma_dma_exit NULL, Kfree NULL] \<and>
         drvdata (snd (xilinx_dma_bridge_remove E pd s)) = drvdata s"
  using assms by (simp add: remove_run obs_defs)

theorem remove_unattached_unguarded_witness:
  "drvdata s0 7 = NULL \<and>
   fst (xilinx_dma_bridge_remove E_ok 7 s0) = 0 \<and>
   issued s0 (snd (xilinx_dma_bridge_remove E_ok 7 s0)) =
     [Dev_get_drvdata 7 NULL, Axidma_chrdev_exit NULL, Axidma_dma_exit NULL, Kfree NULL]"
proof -
  have h: "drvdata s0 7 = NULL" by (simp add: s0_def)
  show ?thesis using h remove_unattached_unguarded [OF h, of E_ok] by blast
qed

text \<open>
  The claim as first stated, that no release operation is invoked on an absent handle, fails
  on the empty initial state.
\<close>

theorem remove_unattached_counterexample:
  "drvdata s0 7 = NULL \<and> heap s0 NULL = None \<and>
   fst (xilinx_dma_bridge_remove E_ok 7 s0) = 0 \<and>
   released (issued s0 (snd (xilinx_dma_bridge_remove E_ok 7 s0))) =
     [Subsystem_B NULL, Subsystem_A NULL, Handle NULL]"
  by (simp add: xilinx_dma_bridge_remove_def prim_defs fixture_defs obs_defs Let_def)

end
